theory Spec2Isabelle
  imports Main "HOL-Library.Sublist"
begin

section \<open>The deployment descriptor \<open>modal/app.py\<close>\<close>

text \<open>
  The descriptor consists of module-level constants, two declarative values (the volume
  reference and the image recipe), the entry procedure \<open>web\<close> and the local summary
  procedure \<open>main\<close>. The procedures act on the outside world only through calls to the
  platform, to \<open>subprocess\<close> and to \<open>print\<close>; the model threads a record of the
  container's observable state through them and keeps the calls in the order they are made.
\<close>

subsection \<open>Module constants\<close>

definition APP_NAME :: string where
  "APP_NAME = ''dataset-viewer''"

definition VOLUME_NAME :: string where
  "VOLUME_NAME = ''claimhawk-lora-training''"

subsection \<open>The volume reference\<close>

text \<open>
  \<open>modal.Volume.from_name(name, create_if_missing=...)\<close> builds a reference by name;
  nothing is looked up when the reference is built.
\<close>

record volume_ref =
  vol_name :: string
  create_if_missing :: bool

definition from_name :: "string \<Rightarrow> bool \<Rightarrow> volume_ref" where
  "from_name n c = \<lparr>vol_name = n, create_if_missing = c\<rparr>"

definition datasets_volume :: volume_ref where
  "datasets_volume = from_name VOLUME_NAME False"

subsection \<open>The image recipe\<close>

datatype build_step =
    DebianSlim string
  | AptInstall "string list"
  | RunCommands "string list"
  | CopyLocalDir string string "string list"

definition image :: "build_step list" where
  "image =
    [DebianSlim ''3.11'',
     AptInstall [''nodejs'', ''npm'', ''curl'', ''git''],
     RunCommands [''npm install -g npm@latest''],
     CopyLocalDir ''.'' ''/app'' [''.next'', ''node_modules'', ''.git'', ''modal''],
     RunCommands [''cd /app && npm ci --legacy-peer-deps'', ''cd /app && npm run build'']]"

subsection \<open>The decorators of \<open>web\<close>\<close>

record function_options =
  memory :: nat
  cpu :: nat
  allow_concurrent_inputs :: nat
  container_idle_timeout :: nat
  volumes :: "(string \<times> volume_ref) list"

definition web_function_options :: function_options where
  "web_function_options =
    \<lparr>memory = 1024, cpu = 1, allow_concurrent_inputs = 10, container_idle_timeout = 300,
     volumes = [(''/datasets'', datasets_volume)]\<rparr>"

record web_server_options =
  port :: nat
  startup_timeout :: nat

definition web_server :: web_server_options where
  "web_server = \<lparr>port = 3000, startup_timeout = 60\<rparr>"

subsection \<open>The container's observable state\<close>

text \<open>
  An exception raised by an outside call. Which exception the platform or the operating
  system raises is not decided by the descriptor, so the model keeps it as a value.
\<close>

datatype fault = VolumeFault string | OSFault string

text \<open>The keyword arguments of \<open>subprocess.Popen\<close> that the descriptor passes.\<close>

record popen_args =
  args :: "string list"
  cwd :: string
  env :: "string \<rightharpoonup> string"

text \<open>
  The calls a procedure running in the container can make to the outside. \<open>web\<close> makes
  the first two; the others are the ways of blocking on a child (\<open>Popen.wait\<close>), of
  querying it (\<open>Popen.poll\<close>) and of probing a port, none of which the source uses.
\<close>

datatype call =
    VolumeReload volume_ref
  | Popen popen_args
  | ChildWait nat
  | ChildPoll nat
  | PortProbe nat

record world =
  os_environ :: "string \<rightharpoonup> string"
  calls :: "call list"
  children :: "popen_args list"
  stdout :: "string list"

text \<open>
  What the outside answers: whether a volume reload raises, and whether starting a child
  raises (for instance when the executable is missing). Both may depend on everything that
  happened before.
\<close>

record platform =
  reload_outcome :: "world \<Rightarrow> fault option"
  spawn_outcome :: "popen_args \<Rightarrow> world \<Rightarrow> fault option"

type_synonym 'a proc = "world \<Rightarrow> (fault + 'a) \<times> world"

definition volume_reload :: "platform \<Rightarrow> volume_ref \<Rightarrow> unit proc" where
  "volume_reload pf v w =
    (let w' = w\<lparr>calls := calls w @ [VolumeReload v]\<rparr>
     in case reload_outcome pf w of
          Some e \<Rightarrow> (Inl e, w')
        | None \<Rightarrow> (Inr (), w'))"

text \<open>
  \<open>subprocess.Popen(...)\<close> starts the child and returns at once with a handle (here the
  child's index); it does not wait for the child.
\<close>

definition subprocess_Popen :: "platform \<Rightarrow> popen_args \<Rightarrow> nat proc" where
  "subprocess_Popen pf a w =
    (let w' = w\<lparr>calls := calls w @ [Popen a]\<rparr>
     in case spawn_outcome pf a w of
          Some e \<Rightarrow> (Inl e, w')
        | None \<Rightarrow> (Inr (length (children w')), w'\<lparr>children := children w' @ [a]\<rparr>))"

definition print :: "string \<Rightarrow> world \<Rightarrow> world" where
  "print s w = w\<lparr>stdout := stdout w @ [s]\<rparr>"

subsection \<open>The entry procedure\<close>

definition web :: "platform \<Rightarrow> unit proc" where
  "web pf w =
    (case volume_reload pf datasets_volume w of
       (Inl e, w1) \<Rightarrow> (Inl e, w1)
     | (Inr _, w1) \<Rightarrow>
         (case subprocess_Popen pf
                 \<lparr>args = [''npm'', ''run'', ''start''],
                  cwd = ''/app'',
                  env = (os_environ w1)
                          (''PORT'' \<mapsto> ''3000'',
                           ''HOSTNAME'' \<mapsto> ''0.0.0.0'',
                           ''NODE_ENV'' \<mapsto> ''production'')\<rparr> w1 of
            (Inl e, w2) \<Rightarrow> (Inl e, w2)
          | (Inr _, w2) \<Rightarrow> (Inr (), w2)))"

subsection \<open>The local summary procedure\<close>

definition main :: "world \<Rightarrow> world" where
  "main w =
    print (''Access at: https://claimhawk--'' @ APP_NAME @ ''-web.modal.run'')
      (print (''Volume: '' @ VOLUME_NAME)
        (print ''Dataset Viewer deployed to Modal'' w))"

subsection \<open>Observing one invocation\<close>

text \<open>The calls made between an earlier state \<open>w\<close> and a later state \<open>w'\<close>.\<close>

definition new_calls :: "world \<Rightarrow> world \<Rightarrow> call list" where
  "new_calls w w' = drop (length (calls w)) (calls w')"

definition new_children :: "world \<Rightarrow> world \<Rightarrow> popen_args list" where
  "new_children w w' = drop (length (children w)) (children w')"

definition printed :: "world \<Rightarrow> world \<Rightarrow> string list" where
  "printed w w' = drop (length (stdout w)) (stdout w')"

fun is_reload :: "call \<Rightarrow> bool" where
  "is_reload (VolumeReload _) = True"
| "is_reload _ = False"

fun is_popen :: "call \<Rightarrow> bool" where
  "is_popen (Popen _) = True"
| "is_popen _ = False"

fun waits_or_probes :: "call \<Rightarrow> bool" where
  "waits_or_probes (ChildWait _) = True"
| "waits_or_probes (ChildPoll _) = True"
| "waits_or_probes (PortProbe _) = True"
| "waits_or_probes _ = False"

text \<open>
  The number a string of decimal digits denotes, used to compare the \<open>PORT\<close> variable
  (a string) with the port of the \<open>web_server\<close> decorator (a number).
\<close>

fun decimal_from :: "nat \<Rightarrow> string \<Rightarrow> nat option" where
  "decimal_from acc [] = Some acc"
| "decimal_from acc (c # cs) =
     (if 48 \<le> (of_char c :: nat) \<and> (of_char c :: nat) \<le> 57
      then decimal_from (10 * acc + (of_char c - 48)) cs
      else None)"

definition decimal_value :: "string \<Rightarrow> nat option" where
  "decimal_value s = (if s = [] then None else decimal_from 0 s)"

text \<open>An outside on which every call succeeds, and one whose volume reload raises.\<close>

definition all_succeed :: platform where
  "all_succeed = \<lparr>reload_outcome = (\<lambda>_. None), spawn_outcome = (\<lambda>_ _. None)\<rparr>"

definition reload_raises :: platform where
  "reload_raises =
    \<lparr>reload_outcome = (\<lambda>_. Some (VolumeFault ''reload failed'')),
     spawn_outcome = (\<lambda>_ _. None)\<rparr>"

definition fresh_container :: world where
  "fresh_container =
    \<lparr>os_environ = [''PATH'' \<mapsto> ''/usr/bin'', ''PORT'' \<mapsto> ''8080''],
     calls = [], children = [], stdout = []\<rparr>"

subsection \<open>Platform behaviour the descriptor relies on\<close>

text \<open>
  Modelled from the spec: how the platform resolves a volume reference when the deployment
  unit starts. The resolution is done by the Modal library, whose code is not part of
  \<open>src/\<close>; the descriptor only builds the reference. Following the spec ("volume binding
  must exist before the deployment unit can start"), a name that exists resolves to that
  volume, a missing name is created only when the reference asks for it, and otherwise the
  resolution fails. The second component is the set of volumes that exist afterwards.
\<close>

definition resolve_volume :: "volume_ref \<Rightarrow> string set \<Rightarrow> (fault + string) \<times> string set" where
  "resolve_volume v vols =
    (if vol_name v \<in> vols then (Inr (vol_name v), vols)
     else if create_if_missing v then (Inr (vol_name v), insert (vol_name v) vols)
     else (Inl (VolumeFault (vol_name v)), vols))"

text \<open>
  Modelled from the spec: what the platform's \<open>copy_local_dir\<close> build step puts into the
  image. The step is implemented by the Modal library, whose code is not part of \<open>src/\<close>;
  the descriptor only passes the source directory, the destination and the exclusion list.
  Following the spec ("excluded paths must never appear inside the built image's copied
  source tree"), a file of the source directory, given by its path relative to that
  directory, is left out when the path starts with an entry of the exclusion list, and is
  otherwise copied to the same relative path below the destination. The other build steps
  copy nothing from the source directory.
\<close>

type_synonym path = "string list"

definition ignored :: "string list \<Rightarrow> path \<Rightarrow> bool" where
  "ignored ign p = (case p of [] \<Rightarrow> False | c # _ \<Rightarrow> c \<in> set ign)"

fun copied_files :: "build_step \<Rightarrow> path list \<Rightarrow> path list" where
  "copied_files (CopyLocalDir src dst ign) tree =
     map ((#) dst) (filter (\<lambda>p. \<not> ignored ign p) tree)"
| "copied_files _ tree = []"

definition copied_source_tree :: "path list \<Rightarrow> path list" where
  "copied_source_tree tree = concat (map (\<lambda>s. copied_files s tree) image)"

definition exclusion_list :: "string list" where
  "exclusion_list = [''.next'', ''node_modules'', ''.git'', ''modal'']"

text \<open>The arguments \<open>web\<close> passes to \<open>Popen\<close>, and the state after the reload call; both are notation only.\<close>

abbreviation (input) server_args :: "(string \<rightharpoonup> string) \<Rightarrow> popen_args" where
  "server_args e \<equiv>
     \<lparr>args = [''npm'', ''run'', ''start''], cwd = ''/app'',
      env = e(''PORT'' \<mapsto> ''3000'', ''HOSTNAME'' \<mapsto> ''0.0.0.0'', ''NODE_ENV'' \<mapsto> ''production'')\<rparr>"

abbreviation (input) reloaded :: "world \<Rightarrow> world" where
  "reloaded w \<equiv> w\<lparr>calls := calls w @ [VolumeReload datasets_volume]\<rparr>"

section \<open>The outcomes of one invocation of \<open>web\<close>\<close>

lemma web_reload_raises:
  "reload_outcome pf w = Some e \<Longrightarrow> web pf w = (Inl e, reloaded w)"
  by (simp add: web_def volume_reload_def)

lemma web_popen_raises:
  "reload_outcome pf w = None \<Longrightarrow>
   spawn_outcome pf (server_args (os_environ w)) (reloaded w) = Some e \<Longrightarrow>
   web pf w = (Inl e, w\<lparr>calls := calls w @ [VolumeReload datasets_volume, Popen (server_args (os_environ w))]\<rparr>)"
  by (simp add: web_def volume_reload_def subprocess_Popen_def)

lemma web_succeeds:
  "reload_outcome pf w = None \<Longrightarrow>
   spawn_outcome pf (server_args (os_environ w)) (reloaded w) = None \<Longrightarrow>
   web pf w = (Inr (), w\<lparr>calls := calls w @ [VolumeReload datasets_volume, Popen (server_args (os_environ w))],
                         children := children w @ [server_args (os_environ w)]\<rparr>)"
  by (simp add: web_def volume_reload_def subprocess_Popen_def)

lemma web_outcomes:
  obtains (reload_fault) e where "reload_outcome pf w = Some e"
      "web pf w = (Inl e, reloaded w)"
  | (popen_fault) e where "reload_outcome pf w = None"
      "spawn_outcome pf (server_args (os_environ w)) (reloaded w) = Some e"
      "web pf w = (Inl e, w\<lparr>calls := calls w @ [VolumeReload datasets_volume, Popen (server_args (os_environ w))]\<rparr>)"
  | (started) "reload_outcome pf w = None"
      "spawn_outcome pf (server_args (os_environ w)) (reloaded w) = None"
      "web pf w = (Inr (), w\<lparr>calls := calls w @ [VolumeReload datasets_volume, Popen (server_args (os_environ w))],
                         children := children w @ [server_args (os_environ w)]\<rparr>)"
proof (cases "reload_outcome pf w")
  case (Some e)
  then show ?thesis using web_reload_raises reload_fault by blast
next
  case None
  show ?thesis
  proof (cases "spawn_outcome pf (server_args (os_environ w)) (reloaded w)")
    case (Some e)
    with None show ?thesis using web_popen_raises popen_fault by blast
  next
    case N2: None
    with None show ?thesis using web_succeeds started by blast
  qed
qed

section \<open>The entry procedure\<close>

text \<open>
  Claim C1. In every invocation of \<open>web\<close> the first call to the outside is the reload of
  \<open>datasets_volume\<close>, and the server is started only after it: the calls of one invocation
  are the reload alone, or the reload followed by the one \<open>Popen\<close> call; a child exists
  only in the second case. When neither call raises, \<open>web\<close> makes exactly these two
  calls in this order, starts the child, and returns no value (the unit result).
\<close>

theorem web_reload_then_spawn:
  "(new_calls w (snd (web pf w)) = [VolumeReload datasets_volume]
      \<or> new_calls w (snd (web pf w)) =
          [VolumeReload datasets_volume, Popen (server_args (os_environ w))])
   \<and> calls (snd (web pf w)) = calls w @ new_calls w (snd (web pf w))
   \<and> (new_children w (snd (web pf w)) = []
      \<or> new_children w (snd (web pf w)) = [server_args (os_environ w)]
        \<and> new_calls w (snd (web pf w)) =
            [VolumeReload datasets_volume, Popen (server_args (os_environ w))])
   \<and> (reload_outcome pf w = None
        \<and> spawn_outcome pf (server_args (os_environ w)) (reloaded w) = None
      \<longrightarrow> web pf w =
            (Inr (),
             w\<lparr>calls := calls w @ [VolumeReload datasets_volume, Popen (server_args (os_environ w))],
               children := children w @ [server_args (os_environ w)]\<rparr>))"
  by (cases pf w rule: web_outcomes) (simp_all add: new_calls_def new_children_def)

text \<open>On a fresh container where every call succeeds: reload, then the child in \<open>/app\<close>.\<close>

theorem web_reload_then_spawn_witness:
  "reload_outcome all_succeed fresh_container = None
   \<and> spawn_outcome all_succeed (server_args (os_environ fresh_container)) (reloaded fresh_container) = None
   \<and> fst (web all_succeed fresh_container) = Inr ()
   \<and> map is_reload (calls (snd (web all_succeed fresh_container))) = [True, False]
   \<and> map is_popen (calls (snd (web all_succeed fresh_container))) = [False, True]
   \<and> map cwd (children (snd (web all_succeed fresh_container))) = [''/app'']"
  using web_reload_then_spawn [of fresh_container all_succeed]
  by (simp add: all_succeed_def fresh_container_def)

text \<open>
  Claim C2. The environment of every child that \<open>web\<close> starts is the inherited environment
  with three overrides on top: \<open>PORT\<close>, \<open>HOSTNAME\<close> and \<open>NODE_ENV\<close> have the fixed
  values, whatever the inherited environment gave them, and every other variable has
  exactly the inherited value (set or unset).
\<close>

theorem web_child_environment:
  "Popen a \<in> set (new_calls w (snd (web pf w))) \<or> a \<in> set (new_children w (snd (web pf w))) \<Longrightarrow>
     env a ''PORT'' = Some ''3000''
   \<and> env a ''HOSTNAME'' = Some ''0.0.0.0''
   \<and> env a ''NODE_ENV'' = Some ''production''
   \<and> (\<forall>k. k \<notin> {''PORT'', ''HOSTNAME'', ''NODE_ENV''} \<longrightarrow> env a k = os_environ w k)
   \<and> dom (env a) = dom (os_environ w) \<union> {''PORT'', ''HOSTNAME'', ''NODE_ENV''}"
  by (cases pf w rule: web_outcomes) (auto simp: new_calls_def new_children_def)

text \<open>An inherited \<open>PATH\<close> reaches the child unchanged; an inherited \<open>PORT\<close> is overridden.\<close>

theorem web_child_environment_witness:
  "Popen (server_args (os_environ fresh_container))
     \<in> set (new_calls fresh_container (snd (web all_succeed fresh_container)))
   \<and> ''PATH'' \<notin> {''PORT'', ''HOSTNAME'', ''NODE_ENV''}
   \<and> env (server_args (os_environ fresh_container)) ''PATH'' = Some ''/usr/bin''
   \<and> env (server_args (os_environ fresh_container)) ''PORT'' = Some ''3000''"
proof -
  have h: "Popen (server_args (os_environ fresh_container))
     \<in> set (new_calls fresh_container (snd (web all_succeed fresh_container)))"
    by (simp add: web_succeeds all_succeed_def new_calls_def)
  have p: "os_environ fresh_container ''PATH'' = Some ''/usr/bin''"
    by (simp add: fresh_container_def)
  from h have "Popen (server_args (os_environ fresh_container))
       \<in> set (new_calls fresh_container (snd (web all_succeed fresh_container)))
     \<or> server_args (os_environ fresh_container)
       \<in> set (new_children fresh_container (snd (web all_succeed fresh_container)))" ..
  from web_child_environment [OF this] h p show ?thesis by simp
qed

text \<open>
  Claim C5. When the volume reload raises, \<open>web\<close> raises the same fault, the reload is the
  only call it has made, and no child is started: the children, the environment and the
  output of the container are what they were.
\<close>

theorem web_reload_fault_propagates:
  "reload_outcome pf w = Some e \<Longrightarrow>
     fst (web pf w) = Inl e
   \<and> new_calls w (snd (web pf w)) = [VolumeReload datasets_volume]
   \<and> children (snd (web pf w)) = children w
   \<and> os_environ (snd (web pf w)) = os_environ w
   \<and> stdout (snd (web pf w)) = stdout w"
  by (simp add: web_reload_raises new_calls_def)

text \<open>A platform whose reload raises: the fault comes out of \<open>web\<close> and there is no child.\<close>

theorem web_reload_fault_propagates_witness:
  "reload_outcome reload_raises fresh_container = Some (VolumeFault ''reload failed'')
   \<and> fst (web reload_raises fresh_container) = Inl (VolumeFault ''reload failed'')
   \<and> children (snd (web reload_raises fresh_container)) = []"
proof -
  have h: "reload_outcome reload_raises fresh_container = Some (VolumeFault ''reload failed'')"
    by (simp add: reload_raises_def)
  from web_reload_fault_propagates [OF h] h show ?thesis
    by (simp add: fresh_container_def)
qed

text \<open>
  Claim C8. \<open>web\<close> never waits for the child, never polls it and never probes the port;
  it calls the reload once and \<open>Popen\<close> at most once (no retry), and it returns normally
  exactly when these two calls did not raise. When a child has been started, the
  \<open>Popen\<close> call is the last thing \<open>web\<close> does before it returns.
\<close>

theorem web_no_wait_no_retry:
  "filter waits_or_probes (new_calls w (snd (web pf w))) = []
   \<and> length (filter is_reload (new_calls w (snd (web pf w)))) = 1
   \<and> length (filter is_popen (new_calls w (snd (web pf w)))) \<le> 1
   \<and> (fst (web pf w) = Inr ()) =
       (reload_outcome pf w = None
        \<and> spawn_outcome pf (server_args (os_environ w)) (reloaded w) = None)
   \<and> (new_children w (snd (web pf w)) \<noteq> [] \<longrightarrow>
        is_popen (last (new_calls w (snd (web pf w)))) \<and> fst (web pf w) = Inr ())"
  by (cases pf w rule: web_outcomes) (simp_all add: new_calls_def new_children_def)

text \<open>On a fresh container where every call succeeds, the last call is the \<open>Popen\<close>.\<close>

theorem web_no_wait_no_retry_witness:
  "new_children fresh_container (snd (web all_succeed fresh_container)) \<noteq> []
   \<and> is_popen (last (new_calls fresh_container (snd (web all_succeed fresh_container))))
   \<and> fst (web all_succeed fresh_container) = Inr ()
   \<and> filter waits_or_probes (new_calls fresh_container (snd (web all_succeed fresh_container))) = []"
proof -
  have h: "new_children fresh_container (snd (web all_succeed fresh_container)) \<noteq> []"
    by (simp add: web_succeeds all_succeed_def new_children_def)
  from web_no_wait_no_retry [of fresh_container all_succeed] h show ?thesis by simp
qed

text \<open>
  Claim C9. In every \<open>Popen\<close> call of \<open>web\<close> the \<open>PORT\<close> variable is set, and the number
  it denotes is the port declared in the \<open>web_server\<close> decorator, whatever the inherited
  environment says.
\<close>

theorem web_port_agrees:
  "Popen a \<in> set (new_calls w (snd (web pf w))) \<Longrightarrow>
     (\<exists>s. env a ''PORT'' = Some s \<and> decimal_value s = Some (port web_server))"
  by (cases pf w rule: web_outcomes)
     (auto simp: new_calls_def decimal_value_def web_server_def)

text \<open>The inherited environment asks for port 8080; the child is still told 3000.\<close>

theorem web_port_agrees_witness:
  "Popen (server_args (os_environ fresh_container))
     \<in> set (new_calls fresh_container (snd (web all_succeed fresh_container)))
   \<and> os_environ fresh_container ''PORT'' = Some ''8080''
   \<and> (\<exists>s. env (server_args (os_environ fresh_container)) ''PORT'' = Some s
          \<and> decimal_value s = Some (port web_server))"
proof -
  have h: "Popen (server_args (os_environ fresh_container))
     \<in> set (new_calls fresh_container (snd (web all_succeed fresh_container)))"
    by (simp add: web_succeeds all_succeed_def new_calls_def)
  have p: "os_environ fresh_container ''PORT'' = Some ''8080''"
    by (simp add: fresh_container_def)
  from web_port_agrees [OF h] h p show ?thesis by blast
qed

text \<open>
  Claim C4 does not hold of \<open>web\<close>: the second invocation on the same container is not a
  no-op. It starts a second child, told to listen on the same port as the first.
\<close>

theorem web_twice_two_children:
  "children (snd (web all_succeed (snd (web all_succeed fresh_container))))
     \<noteq> children (snd (web all_succeed fresh_container))
   \<and> length (children (snd (web all_succeed (snd (web all_succeed fresh_container))))) = 2
   \<and> env (children (snd (web all_succeed (snd (web all_succeed fresh_container)))) ! 0) ''PORT''
       = Some ''3000''
   \<and> env (children (snd (web all_succeed (snd (web all_succeed fresh_container)))) ! 1) ''PORT''
       = Some ''3000''"
  by (simp add: web_succeeds all_succeed_def fresh_container_def)

text \<open>
  Claim C4, amended. \<open>web\<close> has no guard against a second invocation: every invocation
  whose reload and \<open>Popen\<close> call do not raise starts one more child with the same command
  and \<open>PORT=3000\<close>, whether or not a child is already there; after two such invocations
  the container has two more children.
\<close>

theorem web_spawns_on_every_invocation:
  assumes "reload_outcome pf w = None"
    and "spawn_outcome pf (server_args (os_environ w)) (reloaded w) = None"
    and "reload_outcome pf (snd (web pf w)) = None"
    and "spawn_outcome pf (server_args (os_environ w)) (reloaded (snd (web pf w))) = None"
  shows "children (snd (web pf w)) = children w @ [server_args (os_environ w)]
       \<and> children (snd (web pf (snd (web pf w))))
           = children w @ [server_args (os_environ w), server_args (os_environ w)]
       \<and> env (server_args (os_environ w)) ''PORT'' = Some ''3000''"
proof -
  have first: "web pf w = (Inr (), w\<lparr>calls := calls w @ [VolumeReload datasets_volume, Popen (server_args (os_environ w))],
                         children := children w @ [server_args (os_environ w)]\<rparr>)"
    using assms(1,2) by (rule web_succeeds)
  have e: "os_environ (snd (web pf w)) = os_environ w"
    by (simp add: first)
  have "web pf (snd (web pf w)) =
     (Inr (), (snd (web pf w))\<lparr>calls := calls (snd (web pf w)) @ [VolumeReload datasets_volume, Popen (server_args (os_environ (snd (web pf w))))],
                         children := children (snd (web pf w)) @ [server_args (os_environ (snd (web pf w)))]\<rparr>)"
    using assms(3,4) unfolding e [symmetric] by (rule web_succeeds)
  then show ?thesis by (simp add: first)
qed

text \<open>Two invocations on a fresh container leave two children.\<close>

theorem web_spawns_on_every_invocation_witness:
  "reload_outcome all_succeed fresh_container = None
   \<and> reload_outcome all_succeed (snd (web all_succeed fresh_container)) = None
   \<and> children (snd (web all_succeed (snd (web all_succeed fresh_container))))
       = [server_args (os_environ fresh_container), server_args (os_environ fresh_container)]"
proof -
  have a: "reload_outcome all_succeed w = None" for w by (simp add: all_succeed_def)
  have b: "spawn_outcome all_succeed x w = None" for x w by (simp add: all_succeed_def)
  from web_spawns_on_every_invocation [OF a b a b, of fresh_container] a
  show ?thesis by (simp add: fresh_container_def)
qed

section \<open>The local summary procedure\<close>

lemma printed_main:
  "printed w (main w) =
     [''Dataset Viewer deployed to Modal'',
      ''Volume: '' @ VOLUME_NAME,
      ''Access at: https://claimhawk--'' @ APP_NAME @ ''-web.modal.run'']"
  by (simp add: printed_def main_def print_def)

text \<open>
  Claim C3 does not hold as stated: the volume name does not occur in the URL line
  that \<open>main\<close> prints.
\<close>

theorem volume_name_not_in_url:
  "\<not> sublist VOLUME_NAME (printed fresh_container (main fresh_container) ! 2)"
  by (simp add: printed_main APP_NAME_def VOLUME_NAME_def sublist_Cons_right)

text \<open>
  Claim C3, amended. \<open>main\<close> prints three lines: a fixed banner, the volume name after
  \<open>Volume: \<close>, and the URL after \<open>Access at: \<close>. With the configured names
  \<open>dataset-viewer\<close> and \<open>claimhawk-lora-training\<close>, both non-empty, the URL starts with the
  organization prefix \<open>https://claimhawk--\<close>, contains \<open>dataset-viewer-web\<close> and contains
  the deployment name; the volume name is what the second line prints.
\<close>

theorem main_prints_summary:
  "printed w (main w) =
     [''Dataset Viewer deployed to Modal'',
      ''Volume: claimhawk-lora-training'',
      ''Access at: https://claimhawk--dataset-viewer-web.modal.run'']
   \<and> APP_NAME = ''dataset-viewer'' \<and> APP_NAME \<noteq> []
   \<and> VOLUME_NAME = ''claimhawk-lora-training'' \<and> VOLUME_NAME \<noteq> []
   \<and> printed w (main w) ! 1 = ''Volume: '' @ VOLUME_NAME
   \<and> printed w (main w) ! 2 = ''Access at: '' @ ''https://claimhawk--'' @ APP_NAME @ ''-web.modal.run''
   \<and> sublist ''dataset-viewer-web'' (printed w (main w) ! 2)
   \<and> sublist APP_NAME (printed w (main w) ! 2)"
proof -
  have u: "sublist (APP_NAME @ ''-web'') (''Access at: https://claimhawk--'' @ (APP_NAME @ ''-web'') @ ''.modal.run'')"
    by (rule sublist_appendI)
  have v: "sublist APP_NAME (''Access at: https://claimhawk--'' @ APP_NAME @ ''-web.modal.run'')"
    by (rule sublist_appendI)
  from u have u': "sublist ''dataset-viewer-web'' (''Access at: https://claimhawk--'' @ APP_NAME @ ''-web.modal.run'')"
    by (simp add: APP_NAME_def)
  show ?thesis using u' v
    by (simp add: printed_main) (simp add: APP_NAME_def VOLUME_NAME_def)
qed

text \<open>
  Claim C10. What \<open>main\<close> prints is the same in any two states of the world (environment,
  earlier calls, children, earlier output): it is built from \<open>APP_NAME\<close> and
  \<open>VOLUME_NAME\<close> alone.
\<close>

theorem main_deterministic:
  "printed w1 (main w1) = printed w2 (main w2)
   \<and> printed w1 (main w1) =
       [''Dataset Viewer deployed to Modal'',
        ''Volume: '' @ VOLUME_NAME,
        ''Access at: https://claimhawk--'' @ APP_NAME @ ''-web.modal.run'']"
  by (simp add: printed_main)

section \<open>The volume reference and the image recipe\<close>

text \<open>
  Claim C7. The descriptor refers to the volume by name with creation disabled. Resolving
  this reference never adds a volume, fails when no volume of that name exists, and
  succeeds exactly when one does.
\<close>

theorem datasets_volume_must_exist:
  "create_if_missing datasets_volume = False
   \<and> vol_name datasets_volume = VOLUME_NAME
   \<and> snd (resolve_volume datasets_volume vols) = vols
   \<and> (VOLUME_NAME \<notin> vols \<longrightarrow>
        fst (resolve_volume datasets_volume vols) = Inl (VolumeFault VOLUME_NAME))
   \<and> (\<exists>n. fst (resolve_volume datasets_volume vols) = Inr n) = (VOLUME_NAME \<in> vols)"
  by (simp add: datasets_volume_def from_name_def resolve_volume_def)

text \<open>With only some other volume present, the resolution fails and creates nothing.\<close>

theorem datasets_volume_must_exist_witness:
  "VOLUME_NAME \<notin> {''some-other-volume''}
   \<and> fst (resolve_volume datasets_volume {''some-other-volume''}) = Inl (VolumeFault VOLUME_NAME)
   \<and> snd (resolve_volume datasets_volume {''some-other-volume''}) = {''some-other-volume''}"
proof -
  have h: "VOLUME_NAME \<notin> {''some-other-volume''}"
    by (simp add: VOLUME_NAME_def)
  from datasets_volume_must_exist [of "{''some-other-volume''}"] h show ?thesis by simp
qed

lemma copied_source_tree_eq:
  "copied_source_tree tree = map ((#) ''/app'') (filter (\<lambda>p. \<not> ignored exclusion_list p) tree)"
  by (simp add: copied_source_tree_def image_def exclusion_list_def)

text \<open>
  Claim C6. The copy step of the image recipe carries the exclusion list \<open>.next\<close>,
  \<open>node_modules\<close>, \<open>.git\<close>, \<open>modal\<close> and the destination \<open>/app\<close>. For every source
  tree, no copied file lies at or below \<open>/app/x\<close> for an entry \<open>x\<close> of the list, and every
  file that is not excluded is copied below \<open>/app\<close>.
\<close>

theorem excluded_paths_not_copied:
  "CopyLocalDir ''.'' ''/app'' exclusion_list \<in> set image
   \<and> (\<forall>p \<in> set (copied_source_tree tree). \<forall>x \<in> set exclusion_list. \<not> prefix [''/app'', x] p)
   \<and> (\<forall>p \<in> set tree. \<not> ignored exclusion_list p \<longrightarrow> ''/app'' # p \<in> set (copied_source_tree tree))"
proof (intro conjI ballI impI)
  show "CopyLocalDir ''.'' ''/app'' exclusion_list \<in> set image"
    by (simp add: image_def exclusion_list_def)
next
  fix p x
  assume p: "p \<in> set (copied_source_tree tree)" and x: "x \<in> set exclusion_list"
  from p obtain q where q: "p = ''/app'' # q" "\<not> ignored exclusion_list q"
    by (auto simp: copied_source_tree_eq)
  show "\<not> prefix [''/app'', x] p"
  proof
    assume "prefix [''/app'', x] p"
    with q(1) have "prefix [x] q" by simp
    then obtain r where "q = x # r" by (auto simp: prefix_def)
    with x have "ignored exclusion_list q" by (simp add: ignored_def)
    with q(2) show False by contradiction
  qed
next
  fix p
  assume "p \<in> set tree" "\<not> ignored exclusion_list p"
  then show "''/app'' # p \<in> set (copied_source_tree tree)"
    by (simp add: copied_source_tree_eq)
qed

text \<open>A tree with a page and files in all four excluded directories: only the page is copied.\<close>

theorem excluded_paths_not_copied_witness:
  "[''/app'', ''src'', ''page.tsx'']
     \<in> set (copied_source_tree
              [[''src'', ''page.tsx''], [''node_modules'', ''next'', ''index.js''],
               [''.git'', ''HEAD''], [''.next'', ''BUILD_ID''], [''modal'', ''app.py'']])
   \<and> ''node_modules'' \<in> set exclusion_list
   \<and> \<not> prefix [''/app'', ''node_modules''] [''/app'', ''src'', ''page.tsx'']
   \<and> [''/app'', ''node_modules'', ''next'', ''index.js'']
     \<notin> set (copied_source_tree
              [[''src'', ''page.tsx''], [''node_modules'', ''next'', ''index.js''],
               [''.git'', ''HEAD''], [''.next'', ''BUILD_ID''], [''modal'', ''app.py'']])"
proof -
  let ?tree = "[[''src'', ''page.tsx''], [''node_modules'', ''next'', ''index.js''],
               [''.git'', ''HEAD''], [''.next'', ''BUILD_ID''], [''modal'', ''app.py'']]"
  have t: "[''src'', ''page.tsx''] \<in> set ?tree" by simp
  have n: "\<not> ignored exclusion_list [''src'', ''page.tsx'']"
    by (simp add: ignored_def exclusion_list_def)
  have x: "''node_modules'' \<in> set exclusion_list"
    by (simp add: exclusion_list_def)
  note fact = excluded_paths_not_copied [of ?tree]
  from fact t n have c: "[''/app'', ''src'', ''page.tsx''] \<in> set (copied_source_tree ?tree)"
    by blast
  from fact c x have d: "\<not> prefix [''/app'', ''node_modules''] [''/app'', ''src'', ''page.tsx'']"
    by blast
  have e: "[''/app'', ''node_modules'', ''next'', ''index.js''] \<notin> set (copied_source_tree ?tree)"
  proof
    assume "[''/app'', ''node_modules'', ''next'', ''index.js''] \<in> set (copied_source_tree ?tree)"
    with fact x have "\<not> prefix [''/app'', ''node_modules''] [''/app'', ''node_modules'', ''next'', ''index.js'']"
      by blast
    then show False by simp
  qed
  from c x d e show ?thesis by blast
qed

end
